theory Spec2Isabelle
  imports Complex_Main
begin

section \<open>Payment verification (src/lib/verify-payment.ts)\<close>

text \<open>
  The verification engine reads a parsed ledger transaction and decides whether it is a
  fresh, unreplayed token payment to the expected receiver. The model follows the source
  function by function.

  Conventions of the embedding:
  \<^item> A JavaScript number is an IEEE double. A finite double is held as the real number it
    denotes, and every arithmetic step of the source that rounds is followed by \<open>fl\<close>,
    rounding to the nearest double with ties to even (subsection below). Unix seconds
    and slots are integers far below \<open>2 ^ 53\<close>, on which the arithmetic of the source
    is exact: they are \<open>int\<close> and \<open>nat\<close>. \<open>NaN\<close> and the infinities are not values of
    the model, so an overflow beyond the largest double is not modelled.
  \<^item> \<open>uiTokenAmount.amount\<close> is the ledger's decimal string of an unsigned integer; the
    model holds its value, which is what \<open>BigInt(amount)\<close> yields, and a \<open>BigInt\<close> is
    an \<open>int\<close>. Such a string is never empty, so the source's truthiness test on it only
    distinguishes a missing entry.
  \<^item> An \<open>await\<close>ed call that may reject is a value of a sum-like datatype, and the
    \<open>try/catch\<close> of the source is the case distinction on it.
  \<^item> One call runs without interleaving with another call.
\<close>

subsection \<open>JavaScript numbers\<close>

text \<open>
  \<open>roundEven y\<close> is the integer nearest to \<open>y\<close>, the even one of the two when \<open>y\<close> lies
  half way. \<open>fl x\<close> is the double nearest to \<open>x\<close>: with \<open>e\<close> the binary exponent of
  \<open>x\<close>, at least \<open>-1022\<close> (below that the doubles are subnormal and equally spaced),
  the doubles around \<open>x\<close> are the multiples of \<open>2 ^ (e - 52)\<close>. \<open>Number(b)\<close> of a
  \<open>BigInt\<close> is the double nearest to it.
\<close>

definition roundEven :: "real \<Rightarrow> int" where
  "roundEven y =
     (let f = \<lfloor>y\<rfloor>; r = y - of_int f
      in if r < 1 / 2 then f else if r > 1 / 2 then f + 1 else if even f then f else f + 1)"

definition fl :: "real \<Rightarrow> real" where
  "fl x =
     (if x = 0 then 0
      else (let e = max \<lfloor>log 2 \<bar>x\<bar>\<rfloor> (- 1022);
                q = 2 powr (of_int e - 52)
            in q * of_int (roundEven (x / q))))"

definition Number :: "int \<Rightarrow> real" where
  "Number n = fl (of_int n)"

subsection \<open>Ledger data\<close>

record tokenBalance =
  accountIndex :: nat
  mint :: string
  owner :: "string option"
  tokenAmount :: int

text \<open>
  An entry of \<open>tx.transaction.message.instructions\<close>: either partially decoded (no
  \<open>parsed\<close> field) or parsed, with \<open>program\<close>, \<open>parsed.type\<close>, \<open>parsed.info.mint\<close>
  (absent for a plain transfer) and \<open>parsed.info.destination\<close>.
\<close>

datatype instruction =
  PartiallyDecoded
| ParsedIx (program: string) (parsedType: string) (infoMint: "string option") (destination: string)

record txn =
  txErr :: "string option"
  blockTime :: "int option"
  txSlot :: nat
  instructions :: "instruction list"
  preTokenBalances :: "tokenBalance list"
  postTokenBalances :: "tokenBalance list"

text \<open>What \<open>connection.getParsedTransaction\<close> gives: a rejection, \<open>null\<close>, or a transaction.\<close>

datatype fetchResult = RpcFault string | NoTransaction | Confirmed txn

subsection \<open>Results\<close>

text \<open>
  The source reports errors as message strings built from templates; each constructor is
  one template, with the values the template interpolates:
  \<^item> \<open>ReplayDetected\<close>: "Transaction signature already used (replay attack prevented)"
  \<^item> \<open>UnknownNetwork n\<close>: "Unknown network: n"
  \<^item> \<open>TransactionNotFound\<close>: "Transaction not found"
  \<^item> \<open>TransactionFailed e\<close>: "Transaction failed: e"
  \<^item> \<open>TransactionTooOld age\<close>: "Transaction too old (age s > 300s max)"
  \<^item> \<open>TransactionFromFuture\<close>: "Transaction timestamp is in the future"
  \<^item> \<open>TransferNotFound r\<close>: "No USDC transfer to r found in transaction"
  \<^item> \<open>NoValidTransfer\<close>: "No valid USDC transfer found"
  \<^item> \<open>AmountMismatch e a\<close>: "Amount mismatch: expected e USDC, got a USDC"
  \<^item> \<open>VerificationFailed m\<close>: "Verification failed: m"
\<close>

datatype verifyError =
  ReplayDetected
| UnknownNetwork string
| TransactionNotFound
| TransactionFailed string
| TransactionTooOld int
| TransactionFromFuture
| TransferNotFound string
| NoValidTransfer
| AmountMismatch real real
| VerificationFailed string

record PaymentVerification =
  valid :: bool
  error :: "verifyError option"
  sender :: "string option"
  receiver :: "string option"
  amount :: "real option"
  timestamp :: "int option"
  slot :: "nat option"

record TransferSearchResult =
  found :: bool
  tsError :: "verifyError option"
  tsSender :: "string option"
  tsReceiver :: "string option"
  tsAmount :: "real option"

definition rejected :: "verifyError \<Rightarrow> PaymentVerification" where
  "rejected e = \<lparr>valid = False, error = Some e, sender = None, receiver = None,
                 amount = None, timestamp = None, slot = None\<rparr>"

subsection \<open>Constants\<close>

text \<open>
  The table \<open>USDC_MINTS\<close> by its own keys. The parameter \<open>network\<close> is declared
  \<open>'devnet' | 'mainnet-beta'\<close>; any other string is taken to have no entry. (A string
  that names a property every JavaScript object inherits, such as \<open>constructor\<close>, would
  find that property instead; such strings are outside the model.)
\<close>

definition USDC_MINTS :: "string \<Rightarrow> string option" where
  "USDC_MINTS network =
     (if network = ''devnet'' then Some ''4zMMC9srt5Ri5X14GAgXhaHii3GnPAEERYPJgZJDncDU''
      else if network = ''mainnet-beta'' then Some ''EPjFWdd5AufqSSqeM2qN1xzybapC8G4wEGGkZwyTDt1v''
      else None)"

definition MAX_TX_AGE_SECONDS :: int where
  "MAX_TX_AGE_SECONDS = 300"

subsection \<open>The transfer extractor\<close>

text \<open>
  \<open>findUSDCTransfer\<close> has two passes with their own copies of the balance scan: one
  inside the loop over the instructions (lines 205-250) and the fallback after it
  (lines 256-297). Each copy is translated on its own, so that their agreement is a
  theorem and not an assumption of the model.
\<close>

text \<open>Lines 225-240: the sender loop of the instruction pass.\<close>

fun ixSenderLoop :: "tokenBalance list \<Rightarrow> tokenBalance list \<Rightarrow> string \<Rightarrow> string \<Rightarrow> int \<Rightarrow> string option" where
  "ixSenderLoop [] postBalances usdcMint expectedReceiver delta = None"
| "ixSenderLoop (preB # rest) postBalances usdcMint expectedReceiver delta =
     (if mint preB = usdcMint \<and> owner preB \<noteq> Some expectedReceiver then
        (let postB = find (\<lambda>p. accountIndex p = accountIndex preB) postBalances;
             senderPre = tokenAmount preB;
             senderPost = (case postB of Some p \<Rightarrow> tokenAmount p | None \<Rightarrow> 0)
         in if senderPre - senderPost = delta then owner preB
            else ixSenderLoop rest postBalances usdcMint expectedReceiver delta)
      else ixSenderLoop rest postBalances usdcMint expectedReceiver delta)"

text \<open>
  Lines 209-250: the loop over \<open>postBalances\<close> of the instruction pass. \<open>None\<close> means
  the loop ended without returning.
\<close>

fun ixReceiverLoop :: "tokenBalance list \<Rightarrow> tokenBalance list \<Rightarrow> tokenBalance list \<Rightarrow> string \<Rightarrow> string
    \<Rightarrow> TransferSearchResult option" where
  "ixReceiverLoop [] preBalances postBalances usdcMint expectedReceiver = None"
| "ixReceiverLoop (post # rest) preBalances postBalances usdcMint expectedReceiver =
     (if mint post = usdcMint \<and> owner post = Some expectedReceiver then
        (let pre = find (\<lambda>p. accountIndex p = accountIndex post) preBalances;
             preAmount = (case pre of Some p \<Rightarrow> tokenAmount p | None \<Rightarrow> 0);
             postAmount = tokenAmount post;
             delta = postAmount - preAmount
         in if delta > 0 then
              Some \<lparr>found = True, tsError = None,
                    tsSender = ixSenderLoop preBalances postBalances usdcMint expectedReceiver delta,
                    tsReceiver = Some expectedReceiver, tsAmount = Some (Number delta)\<rparr>
            else ixReceiverLoop rest preBalances postBalances usdcMint expectedReceiver)
      else ixReceiverLoop rest preBalances postBalances usdcMint expectedReceiver)"

text \<open>Lines 272-287: the sender loop of the fallback.\<close>

fun fbSenderLoop :: "tokenBalance list \<Rightarrow> tokenBalance list \<Rightarrow> string \<Rightarrow> string \<Rightarrow> int \<Rightarrow> string option" where
  "fbSenderLoop [] postBalances usdcMint expectedReceiver delta = None"
| "fbSenderLoop (preB # rest) postBalances usdcMint expectedReceiver delta =
     (if mint preB = usdcMint \<and> owner preB \<noteq> Some expectedReceiver then
        (let postB = find (\<lambda>p. accountIndex p = accountIndex preB) postBalances;
             senderPre = tokenAmount preB;
             senderPost = (case postB of Some p \<Rightarrow> tokenAmount p | None \<Rightarrow> 0)
         in if senderPre - senderPost = delta then owner preB
            else fbSenderLoop rest postBalances usdcMint expectedReceiver delta)
      else fbSenderLoop rest postBalances usdcMint expectedReceiver delta)"

text \<open>Lines 259-297: the loop over \<open>postBalances\<close> of the fallback.\<close>

fun fbReceiverLoop :: "tokenBalance list \<Rightarrow> tokenBalance list \<Rightarrow> tokenBalance list \<Rightarrow> string \<Rightarrow> string
    \<Rightarrow> TransferSearchResult option" where
  "fbReceiverLoop [] preBalances postBalances usdcMint expectedReceiver = None"
| "fbReceiverLoop (post # rest) preBalances postBalances usdcMint expectedReceiver =
     (if mint post = usdcMint \<and> owner post = Some expectedReceiver then
        (let pre = find (\<lambda>p. accountIndex p = accountIndex post) preBalances;
             preAmount = (case pre of Some p \<Rightarrow> tokenAmount p | None \<Rightarrow> 0);
             postAmount = tokenAmount post;
             delta = postAmount - preAmount
         in if delta > 0 then
              Some \<lparr>found = True, tsError = None,
                    tsSender = fbSenderLoop preBalances postBalances usdcMint expectedReceiver delta,
                    tsReceiver = Some expectedReceiver, tsAmount = Some (Number delta)\<rparr>
            else fbReceiverLoop rest preBalances postBalances usdcMint expectedReceiver)
      else fbReceiverLoop rest preBalances postBalances usdcMint expectedReceiver)"

text \<open>
  Lines 184-253: the loop over the instructions. A \<open>transferChecked\<close> instruction of
  another mint is skipped (\<open>continue\<close>); \<open>info.destination\<close> is read and never used.
\<close>

fun instructionLoop :: "instruction list \<Rightarrow> tokenBalance list \<Rightarrow> tokenBalance list \<Rightarrow> string \<Rightarrow> string
    \<Rightarrow> TransferSearchResult option" where
  "instructionLoop [] preBalances postBalances usdcMint expectedReceiver = None"
| "instructionLoop (PartiallyDecoded # ixs) preBalances postBalances usdcMint expectedReceiver =
     instructionLoop ixs preBalances postBalances usdcMint expectedReceiver"
| "instructionLoop (ParsedIx prog ty m dest # ixs) preBalances postBalances usdcMint expectedReceiver =
     (if prog = ''spl-token'' then
        (if ty = ''transfer'' \<or> ty = ''transferChecked'' then
           (if ty = ''transferChecked'' \<and> m \<noteq> Some usdcMint then
              instructionLoop ixs preBalances postBalances usdcMint expectedReceiver
            else
              (case ixReceiverLoop postBalances preBalances postBalances usdcMint expectedReceiver of
                 Some r \<Rightarrow> Some r
               | None \<Rightarrow> instructionLoop ixs preBalances postBalances usdcMint expectedReceiver))
         else instructionLoop ixs preBalances postBalances usdcMint expectedReceiver)
      else instructionLoop ixs preBalances postBalances usdcMint expectedReceiver)"

definition balanceFallback :: "txn \<Rightarrow> string \<Rightarrow> string \<Rightarrow> TransferSearchResult" where
  "balanceFallback tx usdcMint expectedReceiver =
     (case fbReceiverLoop (postTokenBalances tx) (preTokenBalances tx) (postTokenBalances tx)
             usdcMint expectedReceiver of
        Some r \<Rightarrow> r
      | None \<Rightarrow> \<lparr>found = False, tsError = Some (TransferNotFound expectedReceiver),
                  tsSender = None, tsReceiver = None, tsAmount = None\<rparr>)"

definition findUSDCTransfer :: "txn \<Rightarrow> string \<Rightarrow> string \<Rightarrow> TransferSearchResult" where
  "findUSDCTransfer tx usdcMint expectedReceiver =
     (case instructionLoop (instructions tx) (preTokenBalances tx) (postTokenBalances tx)
             usdcMint expectedReceiver of
        Some r \<Rightarrow> r
      | None \<Rightarrow> balanceFallback tx usdcMint expectedReceiver)"

subsection \<open>The used-signature set\<close>

text \<open>
  \<open>usedSignatures\<close> is a JavaScript \<open>Set\<close>, which iterates in insertion order: a list
  without repetitions, the oldest entry first. \<open>Array.from(set).slice(0, 5000)\<close> is
  \<open>take 5000\<close> of that list.
\<close>

definition setHas :: "string list \<Rightarrow> string \<Rightarrow> bool" where
  "setHas xs s = (s \<in> set xs)"

definition setAdd :: "string list \<Rightarrow> string \<Rightarrow> string list" where
  "setAdd xs s = (if s \<in> set xs then xs else xs @ [s])"

definition setDelete :: "string list \<Rightarrow> string \<Rightarrow> string list" where
  "setDelete xs s = removeAll s xs"

definition cleanUp :: "string list \<Rightarrow> string list" where
  "cleanUp xs = (if length xs > 10000 then foldl setDelete xs (take 5000 xs) else xs)"

subsection \<open>verifyPayment\<close>

text \<open>
  The world of one call: the clock (\<open>Math.floor(Date.now() / 1000)\<close>) and the answer of
  the RPC node of the chosen network for a signature. The state of the server: the
  used-signature set, and a log of the ledger queries made, newest last, which exists
  only to state which calls reach the network.
\<close>

record world =
  now :: int
  ledger :: "string \<Rightarrow> string \<Rightarrow> fetchResult"

record serverState =
  usedSignatures :: "string list"
  rpcLog :: "string list"

text \<open>
  Lines 95-117, the freshness block: \<open>if (txTimestamp)\<close> is JavaScript truthiness, so
  the block is skipped for \<open>null\<close> and also for the number \<open>0\<close>. The result is the
  rejection it returns, if any.
\<close>

definition freshness :: "int \<Rightarrow> int option \<Rightarrow> verifyError option" where
  "freshness nowSeconds txTimestamp =
     (case txTimestamp of
        None \<Rightarrow> None
      | Some t \<Rightarrow>
          (if t = 0 then None
           else (let age = nowSeconds - t
                 in if age > MAX_TX_AGE_SECONDS then Some (TransactionTooOld age)
                    else if age < - 60 then Some TransactionFromFuture
                    else None)))"

text \<open>
  Lines 119-157: extraction, amount check and commit, for a fresh transaction. The
  product \<open>expectedAmount * 1_000_000\<close>, the difference and the two quotients by
  \<open>1_000_000\<close> are double operations, each rounded; \<open>Math.abs\<close> and the comparison with
  \<open>1000\<close> are exact. The non-null assertion \<open>transferResult.amount!\<close> is \<open>the\<close>; it is
  evaluated on a found result only, which always carries an amount (lemma
  \<open>found_amount\<close> below).
\<close>

definition settle ::
  "serverState \<Rightarrow> txn \<Rightarrow> string \<Rightarrow> string \<Rightarrow> real \<Rightarrow> string \<Rightarrow> PaymentVerification \<times> serverState" where
  "settle st tx usdcMint signature expectedAmount expectedReceiver =
     (let transferResult = findUSDCTransfer tx usdcMint expectedReceiver in
      if \<not> found transferResult then
        (rejected (case tsError transferResult of
                     Some e \<Rightarrow> e
                   | None \<Rightarrow> NoValidTransfer), st)
      else
        (let expectedAmountRaw = fl (expectedAmount * 1000000);
             tolerance = 1000;
             got = the (tsAmount transferResult)
         in if \<bar>fl (got - expectedAmountRaw)\<bar> > tolerance then
              ((rejected (AmountMismatch expectedAmount (fl (got / 1000000))))
                 \<lparr>amount := Some (fl (got / 1000000))\<rparr>, st)
            else
              (\<lparr>valid = True, error = None,
                sender = tsSender transferResult,
                receiver = tsReceiver transferResult,
                amount = Some (fl (got / 1000000)),
                timestamp = blockTime tx,
                slot = Some (txSlot tx)\<rparr>,
               st\<lparr>usedSignatures := cleanUp (setAdd (usedSignatures st) signature)\<rparr>)))"

definition verifyPayment ::
  "world \<Rightarrow> serverState \<Rightarrow> string \<Rightarrow> real \<Rightarrow> string \<Rightarrow> string \<Rightarrow> PaymentVerification \<times> serverState" where
  "verifyPayment w st signature expectedAmount expectedReceiver network =
     (if setHas (usedSignatures st) signature then (rejected ReplayDetected, st)
      else
        (case USDC_MINTS network of
           None \<Rightarrow> (rejected (UnknownNetwork network), st)
         | Some usdcMint \<Rightarrow>
            (let st1 = st\<lparr>rpcLog := rpcLog st @ [signature]\<rparr> in
             (case ledger w network signature of
                RpcFault m \<Rightarrow> (rejected (VerificationFailed m), st1)
              | NoTransaction \<Rightarrow> (rejected TransactionNotFound, st1)
              | Confirmed tx \<Rightarrow>
                 (case txErr tx of
                    Some e \<Rightarrow> (rejected (TransactionFailed e), st1)
                  | None \<Rightarrow>
                     (case freshness (now w) (blockTime tx) of
                        Some e \<Rightarrow> ((rejected e)\<lparr>timestamp := blockTime tx\<rparr>, st1)
                      | None \<Rightarrow>
                          settle st1 tx usdcMint signature expectedAmount expectedReceiver))))))"

text \<open>Lines 308-317.\<close>

definition clearUsedSignatures :: "serverState \<Rightarrow> serverState" where
  "clearUsedSignatures st = st\<lparr>usedSignatures := []\<rparr>"

definition isSignatureUsed :: "serverState \<Rightarrow> string \<Rightarrow> bool" where
  "isSignatureUsed st signature = setHas (usedSignatures st) signature"

section \<open>The resource gate (src/app/api/reputation/route.ts)\<close>

text \<open>
  \<open>GET\<close> reads the \<open>Authorization\<close> header, checks the shape of the signature and
  calls \<open>verifyPayment\<close>. \<open>RECEIVER_WALLET\<close> and \<open>NETWORK\<close> come from the process
  environment, so they are fields of a configuration; \<open>PRICE_USDC\<close> is a constant. The
  mock scoring (\<open>generateReputationData\<close>) is kept as the pair of its arguments.
\<close>

record gateConfig =
  RECEIVER_WALLET :: string
  NETWORK :: string

text \<open>\<open>const PRICE_USDC = 0.05\<close>: the double that the literal denotes.\<close>

definition PRICE_USDC :: real where
  "PRICE_USDC = fl (5 / 100)"

record request =
  authorization :: "string option"
  walletParam :: "string option"

datatype gateBody =
  PaymentRequiredBody
| InvalidAuthorization
| VerificationFailedBody "verifyError option"
| NoWalletAddress
| ReputationData string PaymentVerification

record gateResponse =
  httpCode :: nat
  body :: gateBody

text \<open>
  A header value is a string of bytes. \<open>\s\<close> and \<open>trim\<close> take the same characters
  for white space: tab, line feed, vertical tab, form feed, carriage return, space and
  the no-break space.
\<close>

definition isWhiteSpace :: "char \<Rightarrow> bool" where
  "isWhiteSpace c = (c \<in> set [CHR 0x09, CHR 0x0A, CHR 0x0B, CHR 0x0C, CHR 0x0D, CHR 0x20, CHR 0xA0])"

definition trim :: "string \<Rightarrow> string" where
  "trim s = rev (dropWhile isWhiteSpace (rev (dropWhile isWhiteSpace s)))"

text \<open>\<open>authHeader.replace(/^bearer\s+/i, '')\<close>\<close>

fun stripBearer :: "string \<Rightarrow> string" where
  "stripBearer (b # e # a # r # e' # r' # sp # rest) =
     (if (b = CHR ''b'' \<or> b = CHR ''B'') \<and> (e = CHR ''e'' \<or> e = CHR ''E'')
         \<and> (a = CHR ''a'' \<or> a = CHR ''A'') \<and> (r = CHR ''r'' \<or> r = CHR ''R'')
         \<and> (e' = CHR ''e'' \<or> e' = CHR ''E'') \<and> (r' = CHR ''r'' \<or> r' = CHR ''R'')
         \<and> isWhiteSpace sp
      then dropWhile isWhiteSpace rest
      else b # e # a # r # e' # r' # sp # rest)"
| "stripBearer s = s"

definition GET :: "gateConfig \<Rightarrow> world \<Rightarrow> serverState \<Rightarrow> request \<Rightarrow> gateResponse \<times> serverState" where
  "GET cfg w st req =
     (case authorization req of
        None \<Rightarrow> (\<lparr>httpCode = 402, body = PaymentRequiredBody\<rparr>, st)
      | Some authHeader \<Rightarrow>
          (if authHeader = [] then (\<lparr>httpCode = 402, body = PaymentRequiredBody\<rparr>, st)
           else
             (let signature = trim (stripBearer authHeader) in
              if signature = [] \<or> length signature < 80 then
                (\<lparr>httpCode = 400, body = InvalidAuthorization\<rparr>, st)
              else
                (case verifyPayment w st signature PRICE_USDC (RECEIVER_WALLET cfg) (NETWORK cfg) of
                   (verification, st') \<Rightarrow>
                     (if \<not> valid verification then
                        (\<lparr>httpCode = 402, body = VerificationFailedBody (error verification)\<rparr>, st')
                      else
                        (let queryWallet =
                               (case walletParam req of
                                  None \<Rightarrow> sender verification
                                | Some q \<Rightarrow> if q = [] then sender verification else Some q)
                         in case queryWallet of
                              None \<Rightarrow> (\<lparr>httpCode = 400, body = NoWalletAddress\<rparr>, st')
                            | Some q \<Rightarrow>
                                (if q = [] then (\<lparr>httpCode = 400, body = NoWalletAddress\<rparr>, st')
                                 else (\<lparr>httpCode = 200, body = ReputationData q verification\<rparr>,
                                       st'))))))))"

text \<open>
  Modelled from the spec: "A signature is well-formed only if it meets the ledger's
  expected encoded length". The repository has no constant for that length. A signature
  of the ledger is 64 bytes written in base 58, which takes at least 64 and at most 88
  characters.
\<close>

definition ledgerEncodedLength :: "nat \<Rightarrow> bool" where
  "ledgerEncodedLength n = (64 \<le> n \<and> n \<le> 88)"

section \<open>The payment client (src/lib/AgentWallet.ts)\<close>

text \<open>
  \<open>pay\<close> awaits a chain of outside calls, each of which may reject; its \<open>try/catch\<close>
  turns every rejection into a failure response. The outside world of one call is a
  record of what each call answers, and \<open>pay\<close> returns, beside its response, the list
  of the outside calls it made, in order.
\<close>

datatype 'a outcome = Throws string | Returns 'a

record httpResponse =
  httpStatus :: nat
  parsedBody :: "string outcome"

definition ok :: "httpResponse \<Rightarrow> bool" where
  "ok r = (200 \<le> httpStatus r \<and> httpStatus r \<le> 299)"

record PaymentRequirements =
  reqReceiver :: string
  reqAmount :: real
  reqToken :: string
  reqNetwork :: string

text \<open>
  The error strings of \<open>pay\<close>: "HTTP n", "Payment amount $a exceeds maximum $m", and
  the message of a caught exception.
\<close>

datatype payError = HttpError nat | ExceedsMaximum real real | Thrown string

record PaymentResponse =
  success :: bool
  data :: "string option"
  payError :: "payError option"
  txSignature :: "string option"
  status :: nat

datatype effect =
  Fetch "string option"
| GetAccount
| SubmitTransfer string int

text \<open>
  \<^item> \<open>initialFetch\<close>: the first \<open>fetch(url)\<close>;
  \<^item> \<open>paymentInfo\<close>: \<open>initialResponse.json()\<close> passed through
    \<open>parsePaymentRequirements\<close>, which throws when the body is not JSON or is null;
  \<^item> \<open>tokenAccounts\<close>: \<open>new PublicKey(receiver)\<close> and the two
    \<open>getAssociatedTokenAddress\<close> calls, which throw for an invalid address;
  \<^item> \<open>senderBalance\<close>: \<open>getAccount(...).amount\<close>;
  \<^item> \<open>submission\<close>: \<open>sendAndConfirmTransaction\<close>, giving the signature;
  \<^item> \<open>paidFetch\<close>: the second \<open>fetch(url)\<close>, with the signature as \<open>Authorization\<close>.
\<close>

record payWorld =
  initialFetch :: "httpResponse outcome"
  paymentInfo :: "PaymentRequirements outcome"
  tokenAccounts :: "string \<Rightarrow> unit outcome"
  senderBalance :: "int outcome"
  submission :: "string \<Rightarrow> int \<Rightarrow> string outcome"
  paidFetch :: "string \<Rightarrow> httpResponse outcome"

text \<open>
  Lines 239-288. \<open>amount * 1_000_000\<close> is a double product; \<open>Math.round\<close> of a double
  is the integer \<open>\<lfloor>x + 1/2\<rfloor>\<close>, which is \<^const>\<open>round\<close>, and \<open>BigInt\<close> of it is exact.
  \<open>createTransferInstruction\<close> writes the amount as an unsigned 64-bit integer and throws
  for an amount outside that range, as a negative one (the message is abbreviated).
\<close>

definition sendUSDCPayment :: "payWorld \<Rightarrow> string \<Rightarrow> real \<Rightarrow> string outcome \<times> effect list" where
  "sendUSDCPayment w receiverAddr amt =
     (case tokenAccounts w receiverAddr of
        Throws e \<Rightarrow> (Throws e, [])
      | Returns u \<Rightarrow>
         (case senderBalance w of
            Throws e \<Rightarrow> (Throws e, [GetAccount])
          | Returns balance \<Rightarrow>
             (let amountRaw = round (fl (amt * 1000000)) in
              if balance < amountRaw then (Throws ''Insufficient USDC balance'', [GetAccount])
              else if amountRaw < 0 \<or> 2 ^ 64 \<le> amountRaw then
                (Throws ''amount out of range'', [GetAccount])
              else
                (case submission w receiverAddr amountRaw of
                   Throws e \<Rightarrow> (Throws e, [GetAccount, SubmitTransfer receiverAddr amountRaw])
                 | Returns sg \<Rightarrow>
                     (Returns sg, [GetAccount, SubmitTransfer receiverAddr amountRaw])))))"

text \<open>The \<open>catch\<close> block of \<open>pay\<close>, lines 221-233.\<close>

definition caught :: "string \<Rightarrow> PaymentResponse" where
  "caught message = \<lparr>success = False, data = None, payError = Some (Thrown message),
                     txSignature = None, status = 0\<rparr>"

text \<open>Lines 139-234.\<close>

definition pay :: "payWorld \<Rightarrow> real \<Rightarrow> PaymentResponse \<times> effect list" where
  "pay w maxAmount =
     (case initialFetch w of
        Throws e \<Rightarrow> (caught e, [Fetch None])
      | Returns initialResponse \<Rightarrow>
         (if httpStatus initialResponse \<noteq> 402 then
            (case parsedBody initialResponse of
               Throws e \<Rightarrow> (caught e, [Fetch None])
             | Returns d \<Rightarrow>
                 (\<lparr>success = ok initialResponse, data = Some d,
                   payError = (if ok initialResponse then None
                               else Some (HttpError (httpStatus initialResponse))),
                   txSignature = None, status = httpStatus initialResponse\<rparr>,
                  [Fetch None]))
          else
            (case paymentInfo w of
               Throws e \<Rightarrow> (caught e, [Fetch None])
             | Returns requirements \<Rightarrow>
                (if reqAmount requirements > maxAmount then
                   (\<lparr>success = False, data = None,
                     payError = Some (ExceedsMaximum (reqAmount requirements) maxAmount),
                     txSignature = None, status = 402\<rparr>,
                    [Fetch None])
                 else
                   (case sendUSDCPayment w (reqReceiver requirements) (reqAmount requirements) of
                      (Throws e, calls) \<Rightarrow> (caught e, Fetch None # calls)
                    | (Returns sg, calls) \<Rightarrow>
                       (case paidFetch w sg of
                          Throws e \<Rightarrow> (caught e, Fetch None # calls @ [Fetch (Some sg)])
                        | Returns paidResponse \<Rightarrow>
                           (case parsedBody paidResponse of
                              Throws e \<Rightarrow> (caught e, Fetch None # calls @ [Fetch (Some sg)])
                            | Returns d \<Rightarrow>
                                (\<lparr>success = ok paidResponse, data = Some d,
                                  payError = (if ok paidResponse then None
                                              else Some (HttpError (httpStatus paidResponse))),
                                  txSignature = Some sg, status = httpStatus paidResponse\<rparr>,
                                 Fetch None # calls @ [Fetch (Some sg)]))))))))"

section \<open>Sequences of calls\<close>

text \<open>
  The server answers one call after the other, each on the state the previous one left.
  A call is the arguments of \<open>verifyPayment\<close> together with the world it runs in.
\<close>

record call =
  callWorld :: world
  callSignature :: string
  callAmount :: real
  callReceiver :: string
  callNetwork :: string

fun serve :: "serverState \<Rightarrow> call list \<Rightarrow> serverState" where
  "serve st [] = st"
| "serve st (c # cs) =
     serve (snd (verifyPayment (callWorld c) st (callSignature c) (callAmount c)
                   (callReceiver c) (callNetwork c))) cs"

text \<open>
  An invariant of the used-signature list, for the proofs: \<open>s\<close> is in the list and
  at most \<open>j\<close> entries are newer than its first occurrence.
\<close>

definition recent :: "string \<Rightarrow> nat \<Rightarrow> string list \<Rightarrow> bool" where
  "recent s j xs = (\<exists>ys zs. xs = ys @ s # zs \<and> s \<notin> set ys \<and> length zs \<le> j)"

section \<open>Notation and example inputs\<close>

text \<open>
  The amount the source looks up for the account of \<open>b\<close> in the other balance list:
  \<open>find\<close> by \<open>accountIndex\<close>, and \<open>0\<close> when there is no such entry.
\<close>

abbreviation amountAt :: "tokenBalance list \<Rightarrow> tokenBalance \<Rightarrow> int" where
  "amountAt balances b \<equiv>
     (case find (\<lambda>p. accountIndex p = accountIndex b) balances of
        Some p \<Rightarrow> tokenAmount p | None \<Rightarrow> 0)"

text \<open>
  A transfer of \<open>d\<close> raw units from \<open>payer\<close> to \<open>merchant\<close> with block time \<open>bt\<close>,
  and a payment of 50000 raw units to \<open>merchant\<close> that two accounts share, so that no
  single account decreased by the amount received.
\<close>

definition devnetMint :: string where
  "devnetMint = ''4zMMC9srt5Ri5X14GAgXhaHii3GnPAEERYPJgZJDncDU''"

definition transferTx :: "int \<Rightarrow> int option \<Rightarrow> txn" where
  "transferTx d bt =
     \<lparr>txErr = None, blockTime = bt, txSlot = 7,
      instructions = [PartiallyDecoded, ParsedIx ''spl-token'' ''transfer'' None ''merchantAccount''],
      preTokenBalances =
        [\<lparr>accountIndex = 1, mint = devnetMint, owner = Some ''payer'', tokenAmount = 1000000\<rparr>,
         \<lparr>accountIndex = 2, mint = devnetMint, owner = Some ''merchant'', tokenAmount = 10\<rparr>],
      postTokenBalances =
        [\<lparr>accountIndex = 1, mint = devnetMint, owner = Some ''payer'', tokenAmount = 1000000 - d\<rparr>,
         \<lparr>accountIndex = 2, mint = devnetMint, owner = Some ''merchant'', tokenAmount = 10 + d\<rparr>]\<rparr>"

definition splitTx :: txn where
  "splitTx =
     \<lparr>txErr = None, blockTime = None, txSlot = 8,
      instructions = [ParsedIx ''spl-token'' ''transferChecked'' (Some devnetMint) ''merchantAccount''],
      preTokenBalances =
        [\<lparr>accountIndex = 1, mint = devnetMint, owner = Some ''alice'', tokenAmount = 100000\<rparr>,
         \<lparr>accountIndex = 2, mint = devnetMint, owner = Some ''bob'', tokenAmount = 100000\<rparr>],
      postTokenBalances =
        [\<lparr>accountIndex = 1, mint = devnetMint, owner = Some ''alice'', tokenAmount = 75000\<rparr>,
         \<lparr>accountIndex = 2, mint = devnetMint, owner = Some ''bob'', tokenAmount = 75000\<rparr>,
         \<lparr>accountIndex = 3, mint = devnetMint, owner = Some ''merchant'', tokenAmount = 50000\<rparr>]\<rparr>"


definition usd003 :: real where
  "usd003 = fl (3 / 100)"

definition ledgerWith :: "int \<Rightarrow> fetchResult \<Rightarrow> world" where
  "ledgerWith t answer = \<lparr>now = t, ledger = (\<lambda>network signature. answer)\<rparr>"

definition freshServer :: serverState where
  "freshServer = \<lparr>usedSignatures = [], rpcLog = []\<rparr>"

text \<open>Inputs of the gate: a short credential, and a string of 100 characters.\<close>

definition shortHeader :: string where
  "shortHeader = ''Bearer  3xYzShortSignature ''"

definition overlongSignature :: string where
  "overlongSignature =
     ''xxxxxxxxxxxxxxxxxxxxxxxxxxxxxxxxxxxxxxxxxxxxxxxxxxxxxxxxxxxxxxxxxxxxxxxxxxxxxxxxxxxxxxxxxxxxxxxxxxxx''"

definition gateExample :: gateConfig where
  "gateExample = \<lparr>RECEIVER_WALLET = ''merchant'', NETWORK = ''devnet''\<rparr>"

text \<open>
  A server that answers 402 and asks for 0.05 USDC, seen by a wallet whose token account
  answers \<open>balance\<close>.
\<close>

definition walletWorld :: "int outcome \<Rightarrow> payWorld" where
  "walletWorld balance =
     \<lparr>initialFetch = Returns \<lparr>httpStatus = 402, parsedBody = Returns ''payment required''\<rparr>,
      paymentInfo = Returns \<lparr>reqReceiver = ''merchant'', reqAmount = PRICE_USDC,
                             reqToken = ''USDC'', reqNetwork = ''devnet''\<rparr>,
      tokenAccounts = (\<lambda>receiverAddr. Returns ()),
      senderBalance = balance,
      submission = (\<lambda>receiverAddr amountRaw. Returns ''sig''),
      paidFetch = (\<lambda>sg. Returns \<lparr>httpStatus = 200, parsedBody = Returns ''reputation''\<rparr>)\<rparr>"

section \<open>Rounding to the nearest double\<close>

text \<open>
  The exponent of \<open>x\<close> is \<open>k\<close> when \<open>x\<close> lies between \<open>2 ^ k\<close> and \<open>2 ^ (k + 1)\<close>,
  which gives \<open>fl\<close> at a concrete input: for \<open>\<bar>x\<bar> \<ge> 1\<close> and for \<open>\<bar>x\<bar> < 1\<close>.
\<close>

lemma roundEven_of_int: "roundEven (of_int m) = m"
  by (simp add: roundEven_def)

lemma floor_log2_eq:
  assumes "2 powr (of_int k) \<le> \<bar>x\<bar>" and "\<bar>x\<bar> < 2 powr (of_int k + 1)"
  shows "\<lfloor>log 2 \<bar>x\<bar>\<rfloor> = k"
proof -
  have pos: "0 < \<bar>x\<bar>" using assms(1) by (smt (verit) powr_gt_zero)
  have "of_int k \<le> log 2 \<bar>x\<bar>" using assms(1) pos by (simp add: le_log_iff)
  moreover have "log 2 \<bar>x\<bar> < of_int k + 1" using assms(2) pos by (simp add: log_less_iff)
  ultimately show ?thesis by linarith
qed

lemma fl_eval:
  assumes "2 powr (of_int k) \<le> \<bar>x\<bar>" and "\<bar>x\<bar> < 2 powr (of_int k + 1)" and "- 1022 \<le> k"
  shows "fl x = 2 powr (of_int k - 52) * of_int (roundEven (x / 2 powr (of_int k - 52)))"
proof -
  have "x \<noteq> 0" using assms(1) by (smt (verit) powr_gt_zero)
  with floor_log2_eq [OF assms(1,2)] assms(3) show ?thesis
    by (simp add: fl_def Let_def max_def)
qed

lemma fl_eval_ge1:
  fixes k :: nat
  assumes "2 ^ k \<le> \<bar>x\<bar>" and "\<bar>x\<bar> < 2 * 2 ^ k" and "k \<le> 52"
  shows "fl x = of_int (roundEven (x * 2 ^ (52 - k))) / 2 ^ (52 - k)"
proof -
  have a: "2 powr (of_int (int k)) \<le> \<bar>x\<bar>" using assms(1) by (simp add: powr_realpow)
  have b: "\<bar>x\<bar> < 2 powr (of_int (int k) + 1)" using assms(2) by (simp add: powr_add powr_realpow)
  have "of_int (int k) - 52 = - real (52 - k)" using assms(3) by simp
  then have q: "(2::real) powr (of_int (int k) - 52) = 1 / 2 ^ (52 - k)"
    by (simp only: powr_minus powr_realpow) (simp add: field_simps)
  from fl_eval [OF a b] show ?thesis unfolding q by simp
qed

lemma fl_eval_lt1:
  fixes k :: nat
  assumes "1 / 2 ^ k \<le> \<bar>x\<bar>" and "\<bar>x\<bar> < 2 / 2 ^ k" and "k \<le> 1022"
  shows "fl x = of_int (roundEven (x * 2 ^ (52 + k))) / 2 ^ (52 + k)"
proof -
  have p: "(2::real) powr (of_int (- int k)) = 1 / 2 ^ k"
    by (simp add: powr_minus powr_realpow field_simps)
  have a: "2 powr (of_int (- int k)) \<le> \<bar>x\<bar>" using assms(1) by (simp only: p)
  have "(2::real) powr (of_int (- int k) + 1) = 2 / 2 ^ k" by (simp only: powr_add p) simp
  then have b: "\<bar>x\<bar> < 2 powr (of_int (- int k) + 1)" using assms(2) by simp
  have "of_int (- int k) - 52 = - real (52 + k)" by simp
  then have q: "(2::real) powr (of_int (- int k) - 52) = 1 / 2 ^ (52 + k)"
    by (simp only: powr_minus powr_realpow) (simp add: field_simps)
  from assms(3) have "- 1022 \<le> - int k" by simp
  from fl_eval [OF a b this] show ?thesis unfolding q by simp
qed

text \<open>Integers up to \<open>2 ^ 53\<close> are doubles.\<close>

lemma fl_of_int:
  assumes "\<bar>n\<bar> \<le> 2 ^ 53"
  shows "fl (of_int n) = of_int n"
proof (cases "n = 0")
  case True
  then show ?thesis by (simp add: fl_def)
next
  case False
  define x :: real where "x = of_int n"
  have x1: "1 \<le> \<bar>x\<bar>" using False by (simp add: x_def)
  have x2: "\<bar>x\<bar> \<le> 2 ^ 53" using assms unfolding x_def by (metis of_int_abs of_int_le_iff of_int_numeral of_int_power)
  define e where "e = \<lfloor>log 2 \<bar>x\<bar>\<rfloor>"
  have e0: "0 \<le> e" using x1 by (simp add: e_def)
  have lo: "2 powr (of_int e) \<le> \<bar>x\<bar>" using x1 by (simp add: e_def le_log_iff [symmetric])
  have p53: "(2::real) powr (of_int 53) = 2 ^ 53" by simp
  have A: "(2::real) powr (of_int e) \<le> 2 powr (of_int 53)"
    unfolding p53 using lo x2 by (rule order_trans)
  have "1 < (2::real)" by simp
  from powr_le_cancel_iff [OF this, of "of_int e" "of_int 53"] A
  have "real_of_int e \<le> real_of_int 53" by (rule iffD1)
  then have e53: "e \<le> 53" by linarith
  define q :: real where "q = 2 powr (of_int e - 52)"
  have qpos: "q > 0" by (simp add: q_def)
  have "\<exists>m::int. x / q = of_int m"
  proof (cases "e \<le> 52")
    case True
    have "of_int e - 52 = - real (nat (52 - e))" using True by simp
    then have "q = 1 / 2 ^ nat (52 - e)"
      unfolding q_def by (simp only: powr_minus powr_realpow) (simp add: field_simps)
    then have "x / q = of_int (n * 2 ^ nat (52 - e))" by (simp add: x_def)
    then show ?thesis by blast
  next
    case False
    with e53 have e: "e = 53" by simp
    then have "(2::real) powr 53 \<le> \<bar>x\<bar>" using lo by simp
    then have "\<bar>x\<bar> = 2 ^ 53" using x2 by simp
    then have "x = 2 ^ 53 \<or> x = - (2 ^ 53)" by linarith
    moreover have "q = 2" by (simp add: q_def e)
    ultimately have "x / q = of_int (2 ^ 52) \<or> x / q = of_int (- (2 ^ 52))" by auto
    then show ?thesis by blast
  qed
  then obtain m :: int where m: "x / q = of_int m" by blast
  have "x \<noteq> 0" using x1 by auto
  then have "fl x = q * of_int (roundEven (x / q))"
    using e0 by (simp add: fl_def Let_def e_def [symmetric] q_def max_def)
  also have "\<dots> = q * (x / q)" by (simp add: m roundEven_of_int)
  also have "\<dots> = x" using qpos by simp
  finally show ?thesis by (simp add: x_def)
qed

lemma fl_numeral: "(numeral w :: int) \<le> 2 ^ 53 \<Longrightarrow> fl (numeral w) = numeral w"
  using fl_of_int [of "numeral w"] by simp

lemma fl_neg_numeral: "(numeral w :: int) \<le> 2 ^ 53 \<Longrightarrow> fl (- numeral w) = - numeral w"
  using fl_of_int [of "- numeral w"] by simp

lemma fl_0: "fl 0 = 0" by (simp add: fl_def)
lemma fl_1: "fl 1 = 1" using fl_of_int [of 1] by simp

lemma Number_exact: "\<bar>n\<bar> \<le> 2 ^ 53 \<Longrightarrow> Number n = of_int n"
  by (simp add: Number_def fl_of_int)

text \<open>
  The doubles of the example amounts: \<open>0.05 * 1_000_000\<close> is exactly \<open>50000\<close>, and
  \<open>2.01 * 1_000_000\<close> is the double just below \<open>2010000\<close>.
\<close>

lemma PRICE_USDC_value: "PRICE_USDC = 3602879701896397 / 72057594037927936"
  using fl_eval_lt1 [of 5 "5 / 100"] by (simp add: PRICE_USDC_def roundEven_def Let_def)

lemma PRICE_USDC_raw: "fl (PRICE_USDC * 1000000) = 50000"
  using fl_eval_ge1 [of 15 "PRICE_USDC * 1000000"] by (simp add: PRICE_USDC_value roundEven_def Let_def)




lemma PRICE_USDC_below_1: "\<not> 1 < PRICE_USDC"
  by (simp add: PRICE_USDC_value)

lemma usd003_less_PRICE_USDC: "usd003 < PRICE_USDC"
  using fl_eval_lt1 [of 6 "3 / 100"]
  by (simp add: usd003_def PRICE_USDC_value roundEven_def Let_def)

section \<open>Evaluation rules\<close>

lemmas example_defs = devnetMint_def transferTx_def splitTx_def ledgerWith_def freshServer_def

lemmas eval_defs = verifyPayment_def settle_def freshness_def findUSDCTransfer_def balanceFallback_def
  rejected_def USDC_MINTS_def MAX_TX_AGE_SECONDS_def setHas_def setAdd_def cleanUp_def Let_def
  Number_def fl_numeral fl_neg_numeral fl_0 PRICE_USDC_raw

lemmas pay_defs = pay_def sendUSDCPayment_def caught_def ok_def walletWorld_def Let_def
  fl_numeral PRICE_USDC_raw PRICE_USDC_below_1

section \<open>The transfer extractor\<close>

subsection \<open>The two passes agree\<close>

lemma ixSenderLoop_eq_fbSenderLoop:
  "ixSenderLoop ps postBalances usdcMint expectedReceiver delta
   = fbSenderLoop ps postBalances usdcMint expectedReceiver delta"
  by (induction ps) simp_all

lemma ixReceiverLoop_eq_fbReceiverLoop:
  "ixReceiverLoop qs preBalances postBalances usdcMint expectedReceiver
   = fbReceiverLoop qs preBalances postBalances usdcMint expectedReceiver"
  by (induction qs) (simp_all add: ixSenderLoop_eq_fbSenderLoop Let_def)

lemma instructionLoop_result:
  "instructionLoop ixs preBalances postBalances usdcMint expectedReceiver = Some r
   \<Longrightarrow> fbReceiverLoop postBalances preBalances postBalances usdcMint expectedReceiver = Some r"
proof (induction ixs)
  case Nil
  then show ?case by simp
next
  case (Cons ix ixs)
  show ?case
  proof (cases ix)
    case PartiallyDecoded
    with Cons show ?thesis by simp
  next
    case (ParsedIx prog ty m dest)
    with Cons show ?thesis
      by (auto simp: ixReceiverLoop_eq_fbReceiverLoop split: if_splits option.splits)
  qed
qed

lemma findUSDCTransfer_eq:
  "findUSDCTransfer tx usdcMint expectedReceiver = balanceFallback tx usdcMint expectedReceiver"
proof (cases "instructionLoop (instructions tx) (preTokenBalances tx) (postTokenBalances tx)
                usdcMint expectedReceiver")
  case None
  then show ?thesis by (simp add: findUSDCTransfer_def)
next
  case (Some r)
  from instructionLoop_result [OF Some] Some show ?thesis
    by (simp add: findUSDCTransfer_def balanceFallback_def)
qed

text \<open>
  C10. For every transaction, \<open>findUSDCTransfer\<close> gives exactly the result of the
  balance-delta fallback over \<open>preTokenBalances\<close> and \<open>postTokenBalances\<close> alone: the
  pass over the instructions never changes the outcome, since its inner search is the
  same balance scan and the destination of the instruction restricts nothing.
\<close>

theorem findUSDCTransfer_is_balanceFallback:
  "findUSDCTransfer tx usdcMint expectedReceiver = balanceFallback tx usdcMint expectedReceiver"
proof -
  let ?pre = "preTokenBalances tx" and ?post = "postTokenBalances tx"
  show ?thesis
  proof (cases "instructionLoop (instructions tx) ?pre ?post usdcMint expectedReceiver")
    case None
    then show ?thesis by (simp add: findUSDCTransfer_def)
  next
    case (Some r)
    then have "fbReceiverLoop ?post ?pre ?post usdcMint expectedReceiver = Some r"
      by (rule instructionLoop_result)
    with Some show ?thesis by (simp add: findUSDCTransfer_def balanceFallback_def)
  qed
qed

subsection \<open>What the balance scan returns\<close>

lemma fbReceiverLoop_None:
  "(fbReceiverLoop qs pre post m r = None)
   = (\<not> (\<exists>q \<in> set qs. mint q = m \<and> owner q = Some r \<and> tokenAmount q - amountAt pre q > 0))"
  by (induction qs) (auto simp: Let_def)

lemma fbReceiverLoop_Some:
  "fbReceiverLoop qs pre post m r = Some res \<Longrightarrow>
     found res \<and> tsReceiver res = Some r \<and> tsError res = None
     \<and> (\<exists>q \<in> set qs. mint q = m \<and> owner q = Some r \<and> tokenAmount q - amountAt pre q > 0
           \<and> tsAmount res = Some (Number (tokenAmount q - amountAt pre q))
           \<and> tsSender res = fbSenderLoop pre post m r (tokenAmount q - amountAt pre q))"
  by (induction qs) (auto simp: Let_def split: if_splits)

lemma fbSenderLoop_Some:
  "fbSenderLoop ps post m r d = Some s \<Longrightarrow>
     \<exists>p \<in> set ps. mint p = m \<and> owner p = Some s \<and> s \<noteq> r \<and> tokenAmount p - amountAt post p = d"
  by (induction ps) (auto simp: Let_def split: if_splits)

lemma fbSenderLoop_None:
  "\<not> (\<exists>p \<in> set ps. mint p = m \<and> owner p \<noteq> Some r \<and> tokenAmount p - amountAt post p = d)
   \<Longrightarrow> fbSenderLoop ps post m r d = None"
  by (induction ps) (auto simp: Let_def split: if_splits)

lemma found_iff:
  "found (findUSDCTransfer tx m r)
   = (\<exists>q \<in> set (postTokenBalances tx). mint q = m \<and> owner q = Some r
        \<and> tokenAmount q - amountAt (preTokenBalances tx) q > 0)"
proof (cases "fbReceiverLoop (postTokenBalances tx) (preTokenBalances tx) (postTokenBalances tx) m r")
  case None
  then show ?thesis
    using fbReceiverLoop_None [of "postTokenBalances tx" "preTokenBalances tx" "postTokenBalances tx" m r]
    by (simp add: findUSDCTransfer_eq balanceFallback_def)
next
  case (Some res)
  then show ?thesis
    using fbReceiverLoop_None [of "postTokenBalances tx" "preTokenBalances tx" "postTokenBalances tx" m r]
      fbReceiverLoop_Some [OF Some]
    by (auto simp: findUSDCTransfer_eq balanceFallback_def)
qed

text \<open>
  The non-null assertion \<open>transferResult.amount!\<close> of \<open>verifyPayment\<close>, which the
  model writes \<open>the (tsAmount transferResult)\<close>, is only evaluated on a found result,
  and a found result carries an amount.
\<close>

lemma found_amount:
  "found (findUSDCTransfer tx m r) \<Longrightarrow>
     \<exists>d. tsAmount (findUSDCTransfer tx m r) = Some (Number d) \<and> d > 0"
  by (auto simp: findUSDCTransfer_eq balanceFallback_def split: option.splits dest: fbReceiverLoop_Some)

lemma not_found_error:
  "\<not> found (findUSDCTransfer tx m r) \<Longrightarrow> tsError (findUSDCTransfer tx m r) = Some (TransferNotFound r)"
  by (auto simp: findUSDCTransfer_eq balanceFallback_def split: option.splits dest: fbReceiverLoop_Some)

section \<open>The verification engine\<close>

subsection \<open>The used-signature set\<close>

lemma set_foldl_setDelete: "set (foldl setDelete xs ds) = set xs - set ds"
  by (induction ds arbitrary: xs) (auto simp: setDelete_def)

text \<open>
  The clean-up deletes the 5000 oldest entries of a set of more than 10000, and the
  signature just added is the newest one.
\<close>

lemma cleanUp_keeps_newest:
  assumes "s \<notin> set xs"
  shows "s \<in> set (cleanUp (setAdd xs s))"
proof (cases "length (xs @ [s]) > 10000")
  case False
  with assms show ?thesis by (simp add: cleanUp_def setAdd_def)
next
  case True
  then have "take 5000 (xs @ [s]) = take 5000 xs" by simp
  moreover have "s \<notin> set (take 5000 xs)"
    using assms set_take_subset [of 5000 xs] by blast
  ultimately show ?thesis
    using assms True by (simp add: cleanUp_def setAdd_def set_foldl_setDelete)
qed

subsection \<open>The steps of verifyPayment\<close>

lemma settle_valid:
  "valid (fst (settle st tx m s e r)) \<Longrightarrow>
     usedSignatures (snd (settle st tx m s e r)) = cleanUp (setAdd (usedSignatures st) s)"
  by (simp add: settle_def Let_def rejected_def split: if_splits)

lemma settle_invalid:
  "\<not> valid (fst (settle st tx m s e r)) \<Longrightarrow> snd (settle st tx m s e r) = st"
  by (simp add: settle_def Let_def rejected_def split: if_splits)

lemma settle_result_cong:
  "fst (settle st tx m s e r) = fst (settle st2 tx m s e r)"
  by (simp add: settle_def Let_def)

lemma settle_valid_error:
  "valid (fst (settle st tx m s e r)) \<Longrightarrow> error (fst (settle st tx m s e r)) = None"
  by (simp add: settle_def Let_def rejected_def split: if_splits)

lemma verifyPayment_reaches_settle:
  "\<not> setHas (usedSignatures st) s \<Longrightarrow> USDC_MINTS n = Some m \<Longrightarrow> ledger w n s = Confirmed tx
   \<Longrightarrow> txErr tx = None \<Longrightarrow> freshness (now w) (blockTime tx) = None
   \<Longrightarrow> verifyPayment w st s e r n = settle (st\<lparr>rpcLog := rpcLog st @ [s]\<rparr>) tx m s e r"
  by (simp add: verifyPayment_def Let_def)

lemma verifyPayment_valid:
  "valid (fst (verifyPayment w st s e r n)) \<Longrightarrow>
     \<not> setHas (usedSignatures st) s
     \<and> usedSignatures (snd (verifyPayment w st s e r n)) = cleanUp (setAdd (usedSignatures st) s)"
  by (auto simp: verifyPayment_def Let_def rejected_def dest: settle_valid
           split: if_splits option.splits fetchResult.splits)

lemma verifyPayment_invalid:
  "\<not> valid (fst (verifyPayment w st s e r n)) \<Longrightarrow>
     usedSignatures (snd (verifyPayment w st s e r n)) = usedSignatures st"
  by (auto simp: verifyPayment_def Let_def rejected_def dest: settle_invalid
           split: if_splits option.splits fetchResult.splits)

lemma verifyPayment_valid_error:
  "valid (fst (verifyPayment w st s e r n)) \<Longrightarrow> error (fst (verifyPayment w st s e r n)) = None"
  by (auto simp: verifyPayment_def Let_def rejected_def dest: settle_valid_error
           split: if_splits option.splits fetchResult.splits)

lemma verifyPayment_result_cong:
  "usedSignatures st = usedSignatures st2 \<Longrightarrow>
     fst (verifyPayment w st s e r n) = fst (verifyPayment w st2 s e r n)"
  by (auto simp: verifyPayment_def Let_def settle_result_cong [of "st\<lparr>rpcLog := rpcLog st @ [s]\<rparr>" _ _ _ _ _ "st2\<lparr>rpcLog := rpcLog st2 @ [s]\<rparr>"]
           split: if_splits option.splits fetchResult.splits)

lemma verifyPayment_replayed:
  "s \<in> set (usedSignatures st) \<Longrightarrow> verifyPayment w st s e r n = (rejected ReplayDetected, st)"
  by (simp add: verifyPayment_def setHas_def)

lemma repeated_rejection:
  assumes "\<not> valid (fst (verifyPayment w st s e r n))"
  shows "usedSignatures (((\<lambda>t. snd (verifyPayment w t s e r n)) ^^ k) st) = usedSignatures st"
proof (induction k)
  case 0
  show ?case by simp
next
  case (Suc k)
  let ?t = "((\<lambda>t. snd (verifyPayment w t s e r n)) ^^ k) st"
  from Suc have eq: "fst (verifyPayment w ?t s e r n) = fst (verifyPayment w st s e r n)"
    by (rule verifyPayment_result_cong)
  with assms have "\<not> valid (fst (verifyPayment w ?t s e r n))" by simp
  from verifyPayment_invalid [OF this] Suc show ?case by simp
qed

text \<open>
  \<open>verifyPayment\<close> has no check of the shape of the signature: unless the signature was
  used or the network is unknown, the ledger is queried for it, whatever it is.
\<close>

lemma verifyPayment_queries_any_signature:
  "\<not> setHas (usedSignatures st) s \<Longrightarrow> USDC_MINTS n = Some m \<Longrightarrow>
     rpcLog (snd (verifyPayment w st s e r n)) = rpcLog st @ [s]"
  by (auto simp: verifyPayment_def settle_def Let_def split: option.splits fetchResult.splits)

text \<open>
  The freshness block on a block time that is not \<open>0\<close>, and on a missing one.
\<close>

lemma freshness_known:
  "t \<noteq> 0 \<Longrightarrow>
     (freshness nw (Some t) = Some (TransactionTooOld (nw - t))) = (nw - t > 300)
     \<and> (freshness nw (Some t) = Some TransactionFromFuture) = (t - nw > 60)
     \<and> (freshness nw (Some t) = None) = (nw - t \<le> 300 \<and> t - nw \<le> 60)"
  by (auto simp: freshness_def MAX_TX_AGE_SECONDS_def Let_def)

lemma freshness_unknown: "freshness nw None = None"
  by (simp add: freshness_def)

subsection \<open>Replay\<close>

text \<open>
  C1. For every signature \<open>s\<close> for which \<open>verifyPayment\<close> returns \<open>valid: true\<close>, a
  second call with the same \<open>s\<close>, made on the state the first call left, returns
  \<open>valid: false\<close> with the replay error, whatever the ledger, the clock and the other
  arguments of the second call are: \<open>s\<close> was added to the used-signature set on the success
  path, the clean-up does not remove the newest entry, and the set is checked first.
\<close>

theorem replay_after_acceptance:
  assumes "verifyPayment w st s e r n = (res, st')" and "valid res"
  shows "verifyPayment w' st' s e' r' n' = (rejected ReplayDetected, st')"
proof -
  from assms have v: "valid (fst (verifyPayment w st s e r n))" by simp
  from verifyPayment_valid [OF v] assms(1)
  have "s \<notin> set (usedSignatures st)"
    and "usedSignatures st' = cleanUp (setAdd (usedSignatures st) s)"
    by (simp_all add: setHas_def)
  then have "s \<in> set (usedSignatures st')" by (simp add: cleanUp_keeps_newest)
  then show ?thesis by (rule verifyPayment_replayed)
qed

text \<open>
  An accepted payment of 0.05 USDC, presented again a hundred seconds later.
\<close>

theorem replay_after_acceptance_witness:
  "valid (fst (verifyPayment (ledgerWith 1000 (Confirmed (transferTx 50000 (Some 900))))
                 freshServer ''sig'' PRICE_USDC ''merchant'' ''devnet''))
   \<and> fst (verifyPayment (ledgerWith 1100 (Confirmed (transferTx 50000 (Some 900))))
            (snd (verifyPayment (ledgerWith 1000 (Confirmed (transferTx 50000 (Some 900))))
                    freshServer ''sig'' PRICE_USDC ''merchant'' ''devnet''))
            ''sig'' PRICE_USDC ''merchant'' ''devnet'')
     = rejected ReplayDetected"
proof -
  let ?w = "ledgerWith 1000 (Confirmed (transferTx 50000 (Some 900)))"
  let ?first = "verifyPayment ?w freshServer ''sig'' PRICE_USDC ''merchant'' ''devnet''"
  have v: "valid (fst ?first)" by (simp add: example_defs eval_defs)
  have p: "?first = (fst ?first, snd ?first)" by simp
  from replay_after_acceptance [OF p v] v show ?thesis by simp
qed

text \<open>
  The same holds after further calls in between, of any kind and with any signatures, as
  long as there are at most 5000 of them: the clean-up only deletes entries that have
  5000 newer ones. (The bound is that of the clean-up: the 5001st accepted signature
  after \<open>s\<close> can evict \<open>s\<close>.)
\<close>

lemma foldl_setDelete_filter: "foldl setDelete xs ds = filter (\<lambda>x. x \<notin> set ds) xs"
proof (induction ds arbitrary: xs)
  case Nil
  show ?case by simp
next
  case (Cons d ds)
  have "foldl setDelete xs (d # ds) = foldl setDelete (removeAll d xs) ds"
    by (simp add: setDelete_def)
  also have "\<dots> = filter (\<lambda>x. x \<notin> set ds) (removeAll d xs)" by (rule Cons.IH)
  also have "\<dots> = filter (\<lambda>x. x \<notin> set (d # ds)) xs"
    by (induction xs) auto
  finally show ?case .
qed

lemma recent_member: "recent s j xs \<Longrightarrow> s \<in> set xs"
  by (auto simp: recent_def)

lemma recent_mono: "recent s j xs \<Longrightarrow> j \<le> k \<Longrightarrow> recent s k xs"
  by (auto simp: recent_def intro: order_trans)

lemma recent_add:
  assumes r: "recent s j xs" and j: "j \<le> 4999" and t: "t \<notin> set xs"
  shows "recent s (Suc j) (cleanUp (setAdd xs t))"
proof -
  from r obtain ys zs where xs: "xs = ys @ s # zs" and ys: "s \<notin> set ys" and zs: "length zs \<le> j"
    by (auto simp: recent_def)
  show ?thesis
  proof (cases "length (xs @ [t]) > 10000")
    case False
    with t have "cleanUp (setAdd xs t) = ys @ s # (zs @ [t])"
      by (simp add: cleanUp_def setAdd_def xs)
    with ys zs show ?thesis unfolding recent_def
      by (intro exI [of _ ys] exI [of _ "zs @ [t]"]) simp
  next
    case True
    with xs zs j have len: "5000 \<le> length ys" by simp
    then have tk: "take 5000 (xs @ [t]) = take 5000 ys" by (simp add: xs)
    let ?P = "\<lambda>x. x \<notin> set (take 5000 ys)"
    have "s \<notin> set (take 5000 ys)" using ys set_take_subset [of 5000 ys] by blast
    with True t tk have "cleanUp (setAdd xs t) = filter ?P ys @ s # filter ?P (zs @ [t])"
      by (simp add: cleanUp_def setAdd_def foldl_setDelete_filter xs)
    moreover have "length (filter ?P (zs @ [t])) \<le> Suc j"
      using zs length_filter_le [of ?P "zs @ [t]"] by simp
    moreover have "s \<notin> set (filter ?P ys)" using ys by simp
    ultimately show ?thesis unfolding recent_def
      by (intro exI [of _ "filter ?P ys"] exI [of _ "filter ?P (zs @ [t])"]) simp
  qed
qed

lemma recent_first:
  assumes "s \<notin> set xs"
  shows "recent s 0 (cleanUp (setAdd xs s))"
proof (cases "length (xs @ [s]) > 10000")
  case False
  with assms have "cleanUp (setAdd xs s) = xs @ s # []" by (simp add: cleanUp_def setAdd_def)
  with assms show ?thesis unfolding recent_def by (intro exI [of _ xs] exI [of _ "[]"]) simp
next
  case True
  then have tk: "take 5000 (xs @ [s]) = take 5000 xs" by simp
  let ?P = "\<lambda>x. x \<notin> set (take 5000 xs)"
  have "s \<notin> set (take 5000 xs)" using assms set_take_subset [of 5000 xs] by blast
  with True assms tk have "cleanUp (setAdd xs s) = filter ?P xs @ s # []"
    by (simp add: cleanUp_def setAdd_def foldl_setDelete_filter)
  moreover have "s \<notin> set (filter ?P xs)" using assms by simp
  ultimately show ?thesis unfolding recent_def
    by (intro exI [of _ "filter ?P xs"] exI [of _ "[]"]) simp
qed

lemma recent_step:
  assumes "recent s j (usedSignatures st)" and "j \<le> 4999"
  shows "recent s (Suc j) (usedSignatures (snd (verifyPayment w st t e r n)))"
proof (cases "valid (fst (verifyPayment w st t e r n))")
  case True
  from verifyPayment_valid [OF True] assms show ?thesis
    by (simp add: setHas_def recent_add)
next
  case False
  from verifyPayment_invalid [OF False] assms(1) show ?thesis
    by (simp add: recent_mono)
qed

lemma recent_serve:
  "recent s j (usedSignatures st) \<Longrightarrow> j + length cs \<le> 5000
   \<Longrightarrow> recent s (j + length cs) (usedSignatures (serve st cs))"
proof (induction cs arbitrary: st j)
  case Nil
  then show ?case by simp
next
  case (Cons c cs)
  let ?st = "snd (verifyPayment (callWorld c) st (callSignature c) (callAmount c)
                   (callReceiver c) (callNetwork c))"
  from Cons.prems have "recent s (Suc j) (usedSignatures ?st)"
    by (intro recent_step) simp_all
  moreover from Cons.prems have "Suc j + length cs \<le> 5000" by simp
  ultimately have "recent s (Suc j + length cs) (usedSignatures (serve ?st cs))"
    by (rule Cons.IH)
  then show ?case by simp
qed

lemma replay_detected_within_window:
  assumes "verifyPayment w st s e r n = (res, st')" and "valid res" and "length cs \<le> 5000"
  shows "verifyPayment w' (serve st' cs) s e' r' n' = (rejected ReplayDetected, serve st' cs)"
proof -
  from assms have v: "valid (fst (verifyPayment w st s e r n))" by simp
  from verifyPayment_valid [OF v] assms(1)
  have "s \<notin> set (usedSignatures st)"
    and "usedSignatures st' = cleanUp (setAdd (usedSignatures st) s)"
    by (simp_all add: setHas_def)
  then have "recent s 0 (usedSignatures st')" by (simp add: recent_first)
  from recent_serve [OF this, of cs] assms(3)
  have "s \<in> set (usedSignatures (serve st' cs))" by (simp add: recent_member)
  then show ?thesis by (rule verifyPayment_replayed)
qed

subsection \<open>Rejections leave the set alone\<close>

text \<open>
  C6. Every call of \<open>verifyPayment\<close> that returns \<open>valid: false\<close>, for whatever reason,
  leaves the used-signature set unchanged; so a signature that fails with an amount
  mismatch fails with the same amount mismatch after any number \<open>k\<close> of further
  presentations to the same ledger, and never with the replay error.
\<close>

theorem rejection_keeps_used_set:
  "(\<not> valid (fst (verifyPayment w st s e r n)) \<longrightarrow>
      usedSignatures (snd (verifyPayment w st s e r n)) = usedSignatures st)
   \<and> (error (fst (verifyPayment w st s e r n)) = Some (AmountMismatch x y) \<longrightarrow>
        fst (verifyPayment w (((\<lambda>t. snd (verifyPayment w t s e r n)) ^^ k) st) s e r n)
        = fst (verifyPayment w st s e r n))"
proof (intro conjI impI)
  assume "\<not> valid (fst (verifyPayment w st s e r n))"
  then show "usedSignatures (snd (verifyPayment w st s e r n)) = usedSignatures st"
    by (rule verifyPayment_invalid)
next
  assume a: "error (fst (verifyPayment w st s e r n)) = Some (AmountMismatch x y)"
  have "\<not> valid (fst (verifyPayment w st s e r n))"
  proof
    assume "valid (fst (verifyPayment w st s e r n))"
    from verifyPayment_valid_error [OF this] a show False by simp
  qed
  from repeated_rejection [OF this]
  show "fst (verifyPayment w (((\<lambda>t. snd (verifyPayment w t s e r n)) ^^ k) st) s e r n)
        = fst (verifyPayment w st s e r n)"
    by (rule verifyPayment_result_cong)
qed

text \<open>
  A payment of 0.04 USDC where 0.05 is expected, presented four times.
\<close>

theorem rejection_keeps_used_set_witness:
  "usedSignatures (snd (verifyPayment (ledgerWith 1000 (Confirmed (transferTx 40000 None)))
                          freshServer ''sig'' PRICE_USDC ''merchant'' ''devnet'')) = []
   \<and> error (fst (verifyPayment (ledgerWith 1000 (Confirmed (transferTx 40000 None)))
              (((\<lambda>t. snd (verifyPayment (ledgerWith 1000 (Confirmed (transferTx 40000 None)))
                            t ''sig'' PRICE_USDC ''merchant'' ''devnet'')) ^^ 3) freshServer)
              ''sig'' PRICE_USDC ''merchant'' ''devnet''))
     = Some (AmountMismatch PRICE_USDC (fl (40000 / 1000000)))"
proof -
  let ?w = "ledgerWith 1000 (Confirmed (transferTx 40000 None))"
  let ?first = "verifyPayment ?w freshServer ''sig'' PRICE_USDC ''merchant'' ''devnet''"
  have e: "error (fst ?first) = Some (AmountMismatch PRICE_USDC (fl (40000 / 1000000)))"
    by (simp add: example_defs eval_defs)
  have v: "\<not> valid (fst ?first)" by (simp add: example_defs eval_defs)
  have u: "usedSignatures freshServer = []" by (simp add: freshServer_def)
  note t = rejection_keeps_used_set [where w = ?w and st = freshServer and s = "''sig''"
             and e = PRICE_USDC and r = "''merchant''" and n = "''devnet''"
             and x = PRICE_USDC and y = "fl (40000 / 1000000)" and k = 3]
  from t [THEN conjunct1, rule_format, OF v] t [THEN conjunct2, rule_format, OF e] e u
  show ?thesis by simp
qed

subsection \<open>Receiver discrimination\<close>

text \<open>
  C2. \<open>findUSDCTransfer\<close> reports a transfer found only if some entry of
  \<open>postTokenBalances\<close> has the expected mint, the expected receiver as owner and a
  strictly positive delta (its amount minus the amount of the matching entry of
  \<open>preTokenBalances\<close>, \<open>0\<close> if there is none). Without such an entry (only other
  owners credited, or a zero or negative delta of the receiver) nothing is found, and
  \<open>verifyPayment\<close>, once it reaches the extraction, fails with \<open>TransferNotFound\<close>.
\<close>

theorem transfer_found_only_for_receiver_credit:
  "(found (findUSDCTransfer tx m r) \<longrightarrow>
      (\<exists>q \<in> set (postTokenBalances tx). mint q = m \<and> owner q = Some r
          \<and> tokenAmount q - amountAt (preTokenBalances tx) q > 0))
   \<and> (\<not> (\<exists>q \<in> set (postTokenBalances tx). mint q = m \<and> owner q = Some r
            \<and> tokenAmount q - amountAt (preTokenBalances tx) q > 0) \<longrightarrow>
        \<not> found (findUSDCTransfer tx m r)
        \<and> (\<not> setHas (usedSignatures st) s \<longrightarrow> USDC_MINTS n = Some m \<longrightarrow>
             ledger w n s = Confirmed tx \<longrightarrow> txErr tx = None \<longrightarrow>
             freshness (now w) (blockTime tx) = None \<longrightarrow>
             fst (verifyPayment w st s e r n) = rejected (TransferNotFound r)))"
proof (intro conjI impI)
  assume "found (findUSDCTransfer tx m r)"
  then show "\<exists>q \<in> set (postTokenBalances tx). mint q = m \<and> owner q = Some r
          \<and> tokenAmount q - amountAt (preTokenBalances tx) q > 0"
    by (simp add: found_iff)
next
  assume nq: "\<not> (\<exists>q \<in> set (postTokenBalances tx). mint q = m \<and> owner q = Some r
            \<and> tokenAmount q - amountAt (preTokenBalances tx) q > 0)"
  then show nf: "\<not> found (findUSDCTransfer tx m r)" by (simp add: found_iff)
  assume "\<not> setHas (usedSignatures st) s" "USDC_MINTS n = Some m" "ledger w n s = Confirmed tx"
    "txErr tx = None" "freshness (now w) (blockTime tx) = None"
  then have "verifyPayment w st s e r n = settle (st\<lparr>rpcLog := rpcLog st @ [s]\<rparr>) tx m s e r"
    by (rule verifyPayment_reaches_settle)
  with nf not_found_error [OF nf] show "fst (verifyPayment w st s e r n) = rejected (TransferNotFound r)"
    by (simp add: settle_def)
qed

text \<open>
  The transfer from \<open>payer\<close> to \<open>merchant\<close>: found for \<open>merchant\<close>, and not a
  payment to \<open>payer\<close>, whose balance went down.
\<close>

theorem transfer_found_only_for_receiver_credit_witness:
  "(\<exists>q \<in> set (postTokenBalances (transferTx 50000 None)). mint q = devnetMint
        \<and> owner q = Some ''merchant''
        \<and> tokenAmount q - amountAt (preTokenBalances (transferTx 50000 None)) q > 0)
   \<and> \<not> found (findUSDCTransfer (transferTx 50000 None) devnetMint ''payer'')
   \<and> fst (verifyPayment (ledgerWith 1000 (Confirmed (transferTx 50000 None))) freshServer
            ''sig'' PRICE_USDC ''payer'' ''devnet'')
     = rejected (TransferNotFound ''payer'')"
proof -
  let ?tx = "transferTx 50000 None"
  let ?w = "ledgerWith 1000 (Confirmed ?tx)"
  have f: "found (findUSDCTransfer ?tx devnetMint ''merchant'')"
    by (simp add: example_defs eval_defs)
  have nq: "\<not> (\<exists>q \<in> set (postTokenBalances ?tx). mint q = devnetMint \<and> owner q = Some ''payer''
            \<and> tokenAmount q - amountAt (preTokenBalances ?tx) q > 0)"
    by (simp add: example_defs)
  have h: "\<not> setHas (usedSignatures freshServer) ''sig''" "USDC_MINTS ''devnet'' = Some devnetMint"
    "ledger ?w ''devnet'' ''sig'' = Confirmed ?tx" "txErr ?tx = None"
    "freshness (now ?w) (blockTime ?tx) = None"
    by (simp_all add: example_defs eval_defs)
  from transfer_found_only_for_receiver_credit
         [where tx = ?tx and m = devnetMint and r = "''merchant''", THEN conjunct1, rule_format, OF f]
       transfer_found_only_for_receiver_credit
         [where tx = ?tx and m = devnetMint and r = "''payer''" and st = freshServer
            and s = "''sig''" and n = "''devnet''" and w = ?w and e = PRICE_USDC,
          THEN conjunct2, rule_format, OF nq]
       h
  show ?thesis by blast
qed

subsection \<open>Sender attribution\<close>

text \<open>
  The sender loop returns the owner of the first entry of \<open>preTokenBalances\<close> of the
  mint, not owned by the receiver, whose balance decreased by exactly \<open>d\<close>.
\<close>

lemma fbSenderLoop_find:
  "fbSenderLoop ps post m r d
   = (case find (\<lambda>p. mint p = m \<and> owner p \<noteq> Some r \<and> tokenAmount p - amountAt post p = d) ps of
        None \<Rightarrow> None
      | Some p \<Rightarrow> owner p)"
  by (induction ps) (simp_all add: Let_def)

text \<open>The receiver loop returns at the first entry that credits the receiver.\<close>

lemma fbReceiverLoop_find:
  "fbReceiverLoop qs pre post m r
   = (case find (\<lambda>q. mint q = m \<and> owner q = Some r \<and> 0 < tokenAmount q - amountAt pre q) qs of
        None \<Rightarrow> None
      | Some q \<Rightarrow>
          Some \<lparr>found = True, tsError = None,
                tsSender = fbSenderLoop pre post m r (tokenAmount q - amountAt pre q),
                tsReceiver = Some r,
                tsAmount = Some (Number (tokenAmount q - amountAt pre q))\<rparr>)"
  by (induction qs) (simp_all add: Let_def)

text \<open>
  C9. When some entry of \<open>postTokenBalances\<close> credits the expected receiver with a
  positive delta, \<open>findUSDCTransfer\<close> finds the transfer of the first such entry, of delta
  \<open>d\<close>, and reports \<open>Number(d)\<close>. The reported sender is the owner of the first entry of
  \<open>preTokenBalances\<close> of the same mint, not owned by the receiver, whose balance decreased
  by exactly \<open>d\<close> between pre and post (a missing post entry counts as 0); so a reported
  sender owns such an entry and is not the receiver. If no account decreased by exactly
  \<open>d\<close>, the sender is absent and the transfer is found all the same; and \<open>verifyPayment\<close>,
  when the other checks pass, returns \<open>valid: true\<close> with that sender, absent or not.
\<close>

theorem sender_attribution:
  assumes "\<exists>q \<in> set (postTokenBalances tx). mint q = m \<and> owner q = Some r
              \<and> tokenAmount q - amountAt (preTokenBalances tx) q > 0"
  shows "\<exists>q d. find (\<lambda>q. mint q = m \<and> owner q = Some r
                         \<and> 0 < tokenAmount q - amountAt (preTokenBalances tx) q)
                  (postTokenBalances tx) = Some q
     \<and> d = tokenAmount q - amountAt (preTokenBalances tx) q \<and> d > 0
     \<and> found (findUSDCTransfer tx m r) \<and> tsAmount (findUSDCTransfer tx m r) = Some (Number d)
     \<and> tsSender (findUSDCTransfer tx m r)
         = (case find (\<lambda>p. mint p = m \<and> owner p \<noteq> Some r
                            \<and> tokenAmount p - amountAt (postTokenBalances tx) p = d)
                  (preTokenBalances tx) of
              None \<Rightarrow> None
            | Some p \<Rightarrow> owner p)
     \<and> (\<forall>s. tsSender (findUSDCTransfer tx m r) = Some s \<longrightarrow>
           (\<exists>p \<in> set (preTokenBalances tx). mint p = m \<and> owner p = Some s \<and> s \<noteq> r
               \<and> tokenAmount p - amountAt (postTokenBalances tx) p = d))
     \<and> (\<not> (\<exists>p \<in> set (preTokenBalances tx). mint p = m \<and> owner p \<noteq> Some r
               \<and> tokenAmount p - amountAt (postTokenBalances tx) p = d) \<longrightarrow>
          tsSender (findUSDCTransfer tx m r) = None)
     \<and> (\<forall>(w::world) (st::serverState) sg e n. \<not> setHas (usedSignatures st) sg \<longrightarrow>
           USDC_MINTS n = Some m \<longrightarrow> ledger w n sg = Confirmed tx \<longrightarrow> txErr tx = None \<longrightarrow>
           freshness (now w) (blockTime tx) = None \<longrightarrow>
           \<not> \<bar>fl (Number d - fl (e * 1000000))\<bar> > 1000 \<longrightarrow>
           valid (fst (verifyPayment w st sg e r n))
           \<and> sender (fst (verifyPayment w st sg e r n)) = tsSender (findUSDCTransfer tx m r))"
proof -
  let ?pre = "preTokenBalances tx" and ?post = "postTokenBalances tx"
  let ?Q = "\<lambda>q. mint q = m \<and> owner q = Some r \<and> 0 < tokenAmount q - amountAt ?pre q"
  from assms have "find ?Q ?post \<noteq> None" by (auto simp: find_None_iff)
  then obtain q where fq: "find ?Q ?post = Some q" by blast
  then have q: "0 < tokenAmount q - amountAt ?pre q" by (auto simp: find_Some_iff)
  let ?d = "tokenAmount q - amountAt ?pre q"
  let ?S = "\<lambda>p. mint p = m \<and> owner p \<noteq> Some r \<and> tokenAmount p - amountAt ?post p = ?d"
  let ?res = "\<lparr>found = True, tsError = None, tsSender = fbSenderLoop ?pre ?post m r ?d,
               tsReceiver = Some r, tsAmount = Some (Number ?d)\<rparr>"
  have "fbReceiverLoop ?post ?pre ?post m r = Some ?res"
    unfolding fbReceiverLoop_find fq by simp
  then have T: "findUSDCTransfer tx m r = ?res"
    by (simp add: findUSDCTransfer_eq balanceFallback_def)
  have sn: "tsSender ?res = (case find ?S ?pre of None \<Rightarrow> None | Some p \<Rightarrow> owner p)"
    by (simp add: fbSenderLoop_find)
  have s1: "\<forall>s. tsSender ?res = Some s \<longrightarrow>
           (\<exists>p \<in> set ?pre. mint p = m \<and> owner p = Some s \<and> s \<noteq> r
               \<and> tokenAmount p - amountAt ?post p = ?d)"
    using fbSenderLoop_Some [of ?pre ?post m r ?d] by simp
  have s2: "\<not> (\<exists>p \<in> set ?pre. mint p = m \<and> owner p \<noteq> Some r
               \<and> tokenAmount p - amountAt ?post p = ?d) \<longrightarrow> tsSender ?res = None"
    using fbSenderLoop_None [of ?pre m r ?post ?d] by simp
  have s3: "\<forall>(w::world) (st::serverState) sg e n. \<not> setHas (usedSignatures st) sg \<longrightarrow>
           USDC_MINTS n = Some m \<longrightarrow> ledger w n sg = Confirmed tx \<longrightarrow> txErr tx = None \<longrightarrow>
           freshness (now w) (blockTime tx) = None \<longrightarrow>
           \<not> \<bar>fl (Number ?d - fl (e * 1000000))\<bar> > 1000 \<longrightarrow>
           valid (fst (verifyPayment w st sg e r n))
           \<and> sender (fst (verifyPayment w st sg e r n)) = tsSender ?res"
  proof (intro allI impI)
    fix w :: world and st :: serverState and sg :: string and e :: real and n :: string
    assume "\<not> setHas (usedSignatures st) sg" "USDC_MINTS n = Some m" "ledger w n sg = Confirmed tx"
      "txErr tx = None" "freshness (now w) (blockTime tx) = None"
    then have "verifyPayment w st sg e r n = settle (st\<lparr>rpcLog := rpcLog st @ [sg]\<rparr>) tx m sg e r"
      by (rule verifyPayment_reaches_settle)
    moreover assume "\<not> \<bar>fl (Number ?d - fl (e * 1000000))\<bar> > 1000"
    ultimately show "valid (fst (verifyPayment w st sg e r n))
           \<and> sender (fst (verifyPayment w st sg e r n)) = tsSender ?res"
      using T by (simp add: settle_def Let_def)
  qed
  have f: "found ?res" and a: "tsAmount ?res = Some (Number ?d)" by simp_all
  from fq q f a sn s1 s2 s3 show ?thesis unfolding T by blast
qed

text \<open>
  The transfer from \<open>payer\<close> to \<open>merchant\<close>: \<open>payer\<close> lost exactly the 50000 received and
  is the sender. Two accounts paying 25000 each: \<open>merchant\<close> received 50000, nobody lost
  exactly 50000, the sender is absent and the payment is valid.
\<close>

theorem sender_attribution_witness:
  "tsSender (findUSDCTransfer (transferTx 50000 None) devnetMint ''merchant'') = Some ''payer''
   \<and> found (findUSDCTransfer splitTx devnetMint ''merchant'')
   \<and> tsSender (findUSDCTransfer splitTx devnetMint ''merchant'') = None
   \<and> valid (fst (verifyPayment (ledgerWith 1000 (Confirmed splitTx)) freshServer
                  ''sig'' PRICE_USDC ''merchant'' ''devnet''))
   \<and> sender (fst (verifyPayment (ledgerWith 1000 (Confirmed splitTx)) freshServer
                  ''sig'' PRICE_USDC ''merchant'' ''devnet'')) = None"
proof -
  let ?U = "findUSDCTransfer (transferTx 50000 None) devnetMint ''merchant''"
  let ?T = "findUSDCTransfer splitTx devnetMint ''merchant''"
  let ?w = "ledgerWith 1000 (Confirmed splitTx)"
  have q1: "\<exists>q \<in> set (postTokenBalances (transferTx 50000 None)). mint q = devnetMint
              \<and> owner q = Some ''merchant''
              \<and> tokenAmount q - amountAt (preTokenBalances (transferTx 50000 None)) q > 0"
    by (simp add: example_defs)
  from sender_attribution [OF q1] obtain q1 d1 where
    "find (\<lambda>q. mint q = devnetMint \<and> owner q = Some ''merchant''
                 \<and> 0 < tokenAmount q - amountAt (preTokenBalances (transferTx 50000 None)) q)
          (postTokenBalances (transferTx 50000 None)) = Some q1"
    and "d1 = tokenAmount q1 - amountAt (preTokenBalances (transferTx 50000 None)) q1"
    and s1: "tsSender ?U
         = (case find (\<lambda>p. mint p = devnetMint \<and> owner p \<noteq> Some ''merchant''
                            \<and> tokenAmount p - amountAt (postTokenBalances (transferTx 50000 None)) p = d1)
                  (preTokenBalances (transferTx 50000 None)) of
              None \<Rightarrow> None
            | Some p \<Rightarrow> owner p)"
    by blast
  then have "d1 = 50000" by (auto simp: example_defs)
  with s1 have u: "tsSender ?U = Some ''payer''" by (simp add: example_defs)
  have q2: "\<exists>q \<in> set (postTokenBalances splitTx). mint q = devnetMint \<and> owner q = Some ''merchant''
              \<and> tokenAmount q - amountAt (preTokenBalances splitTx) q > 0"
    by (simp add: example_defs)
  from sender_attribution [OF q2] obtain q d where
    fq: "find (\<lambda>q. mint q = devnetMint \<and> owner q = Some ''merchant''
                 \<and> 0 < tokenAmount q - amountAt (preTokenBalances splitTx) q)
          (postTokenBalances splitTx) = Some q"
    and dq: "d = tokenAmount q - amountAt (preTokenBalances splitTx) q"
    and f: "found ?T"
    and none: "\<not> (\<exists>p \<in> set (preTokenBalances splitTx). mint p = devnetMint
                      \<and> owner p \<noteq> Some ''merchant''
                      \<and> tokenAmount p - amountAt (postTokenBalances splitTx) p = d)
               \<longrightarrow> tsSender ?T = None"
    and pass: "\<forall>(w::world) (st::serverState) sg e n.
           \<not> setHas (usedSignatures st) sg \<longrightarrow> USDC_MINTS n = Some devnetMint \<longrightarrow>
           ledger w n sg = Confirmed splitTx \<longrightarrow> txErr splitTx = None \<longrightarrow>
           freshness (now w) (blockTime splitTx) = None \<longrightarrow>
           \<not> \<bar>fl (Number d - fl (e * 1000000))\<bar> > 1000 \<longrightarrow>
           valid (fst (verifyPayment w st sg e ''merchant'' n))
           \<and> sender (fst (verifyPayment w st sg e ''merchant'' n)) = tsSender ?T"
    by blast
  from fq dq have d: "d = 50000" by (auto simp: example_defs)
  have "\<not> (\<exists>p \<in> set (preTokenBalances splitTx). mint p = devnetMint
               \<and> owner p \<noteq> Some ''merchant''
               \<and> tokenAmount p - amountAt (postTokenBalances splitTx) p = d)"
    unfolding d by (simp add: example_defs)
  with none have s: "tsSender ?T = None" by blast
  have h: "\<not> setHas (usedSignatures freshServer) ''sig''" "USDC_MINTS ''devnet'' = Some devnetMint"
    "ledger ?w ''devnet'' ''sig'' = Confirmed splitTx" "txErr splitTx = None"
    "freshness (now ?w) (blockTime splitTx) = None"
    "\<not> \<bar>fl (Number d - fl (PRICE_USDC * 1000000))\<bar> > 1000"
    unfolding d by (simp_all add: example_defs eval_defs)
  from pass [rule_format, OF h] u f s show ?thesis by simp
qed

subsection \<open>Amount tolerance\<close>




subsection \<open>Freshness\<close>

text \<open>
  C4. The claim: for every fetched transaction whose block time is known,
  \<open>verifyPayment\<close> rejects with \<open>TransactionTooOld\<close> iff \<open>now - blockTime > 300\<close> and with
  \<open>TransactionFromFuture\<close> iff \<open>blockTime - now > 60\<close>. The code tests the block time for
  truthiness, so a known block time of \<open>0\<close> is treated as unknown: the transaction below
  is more than 300 seconds old and is accepted.
\<close>

theorem freshness_skipped_for_zero_blockTime:
  "blockTime (transferTx 50000 (Some 0)) = Some 0
   \<and> now (ledgerWith 1700000000 (Confirmed (transferTx 50000 (Some 0)))) - 0 > MAX_TX_AGE_SECONDS
   \<and> fst (verifyPayment (ledgerWith 1700000000 (Confirmed (transferTx 50000 (Some 0))))
            freshServer ''sig'' PRICE_USDC ''merchant'' ''devnet'')
     = \<lparr>valid = True, error = None, sender = Some ''payer'', receiver = Some ''merchant'',
        amount = Some (fl (50000 / 1000000)), timestamp = Some 0, slot = Some 7\<rparr>"
  by (simp add: example_defs eval_defs)

section \<open>The resource gate\<close>

text \<open>
  C5, as amended. Every credential whose signature, after the \<open>Bearer\<close> prefix is
  removed and the string is trimmed, is empty or shorter than 80 characters is denied
  by the gate with status 400 and the server state is unchanged: \<open>verifyPayment\<close> is not
  called and the ledger is not queried.
\<close>

theorem gate_rejects_short_signature:
  assumes "authorization req = Some authHeader" and "authHeader \<noteq> []"
    and "length (trim (stripBearer authHeader)) < 80"
  shows "GET cfg w st req = (\<lparr>httpCode = 400, body = InvalidAuthorization\<rparr>, st)"
  using assms by (simp add: GET_def Let_def)

text \<open>
  A credential of 18 characters behind a \<open>Bearer\<close> prefix.
\<close>

theorem gate_rejects_short_signature_witness:
  "GET gateExample (ledgerWith 1000 (Confirmed (transferTx 50000 None))) freshServer
     \<lparr>authorization = Some shortHeader, walletParam = None\<rparr>
   = (\<lparr>httpCode = 400, body = InvalidAuthorization\<rparr>, freshServer)"
proof -
  have h: "authorization \<lparr>authorization = Some shortHeader, walletParam = None\<rparr> = Some shortHeader"
    "shortHeader \<noteq> []" "length (trim (stripBearer shortHeader)) < 80"
    by (simp_all add: shortHeader_def trim_def isWhiteSpace_def)
  from gate_rejects_short_signature [OF h] show ?thesis .
qed

text \<open>
  The claim as stated speaks of every signature that is not of the ledger's encoded
  length. The gate has no upper bound: a string of 100 characters, longer than any
  encoded signature, passes it, and the ledger is queried for it.
\<close>

theorem overlong_signature_reaches_ledger:
  "length overlongSignature = 100 \<and> \<not> ledgerEncodedLength (length overlongSignature)
   \<and> GET gateExample (ledgerWith 1000 NoTransaction) freshServer
        \<lparr>authorization = Some overlongSignature, walletParam = None\<rparr>
     = (\<lparr>httpCode = 402, body = VerificationFailedBody (Some TransactionNotFound)\<rparr>,
        \<lparr>usedSignatures = [], rpcLog = [overlongSignature]\<rparr>)"
  by (simp add: overlongSignature_def ledgerEncodedLength_def GET_def gateExample_def trim_def
        isWhiteSpace_def example_defs eval_defs)

section \<open>The payment client\<close>

text \<open>
  C7. For every \<open>pay\<close> call whose first response is 402 with a parsed required amount
  strictly greater than \<open>maxAmount\<close>, the client returns \<open>success: false\<close> with the
  exceeds-maximum error and status 402, and the only outside call it made is the first
  request: the token account is not read and no transfer is built or submitted.
\<close>

theorem budget_guard:
  assumes "initialFetch w = Returns initialResponse" and "httpStatus initialResponse = 402"
    and "paymentInfo w = Returns requirements" and "reqAmount requirements > maxAmount"
  shows "pay w maxAmount =
           (\<lparr>success = False, data = None,
             payError = Some (ExceedsMaximum (reqAmount requirements) maxAmount),
             txSignature = None, status = 402\<rparr>,
            [Fetch None])
         \<and> GetAccount \<notin> set (snd (pay w maxAmount))
         \<and> (\<forall>receiverAddr amountRaw. SubmitTransfer receiverAddr amountRaw \<notin> set (snd (pay w maxAmount)))"
  using assms by (simp add: pay_def)

text \<open>
  A requirement of 0.05 against a budget of 0.03.
\<close>

theorem budget_guard_witness:
  "pay (walletWorld (Returns 1000000)) usd003 =
     (\<lparr>success = False, data = None, payError = Some (ExceedsMaximum PRICE_USDC usd003),
       txSignature = None, status = 402\<rparr>,
      [Fetch None])"
proof -
  let ?w = "walletWorld (Returns 1000000)"
  let ?resp = "\<lparr>httpStatus = 402, parsedBody = Returns ''payment required''\<rparr>"
  let ?req = "\<lparr>reqReceiver = ''merchant'', reqAmount = PRICE_USDC, reqToken = ''USDC'', reqNetwork = ''devnet''\<rparr>"
  have h: "initialFetch ?w = Returns ?resp" "httpStatus ?resp = 402"
    "paymentInfo ?w = Returns ?req" "reqAmount ?req > usd003"
    by (simp_all add: walletWorld_def usd003_less_PRICE_USDC)
  from budget_guard [OF h] show ?thesis by simp
qed

text \<open>
  C8, as amended. For every failing \<open>pay\<close> call: when the failure is a caught
  exception, from any step, the status is 0, also after a 402 response was received;
  otherwise the status is that of a response received: 402 when the budget guard
  fired, or the status of the first or of the retried response when that is not ok.
\<close>

theorem failing_pay_status:
  assumes "\<not> success (fst (pay w maxAmount))"
  shows "case payError (fst (pay w maxAmount)) of
           None \<Rightarrow> False
         | Some (Thrown message) \<Rightarrow> status (fst (pay w maxAmount)) = 0
         | Some (ExceedsMaximum a b) \<Rightarrow>
             status (fst (pay w maxAmount)) = 402
             \<and> (\<exists>resp. initialFetch w = Returns resp \<and> httpStatus resp = 402)
         | Some (HttpError c) \<Rightarrow>
             status (fst (pay w maxAmount)) = c
             \<and> (\<exists>resp. httpStatus resp = c \<and> \<not> ok resp
                   \<and> (initialFetch w = Returns resp \<or> (\<exists>sg. paidFetch w sg = Returns resp)))"
  using assms
  by (auto simp: pay_def caught_def split: outcome.splits prod.splits if_splits)

text \<open>
  The token account of the wallet cannot be read, after the 402 response.
\<close>

theorem failing_pay_status_witness:
  "\<not> success (fst (pay (walletWorld (Throws ''account not found'')) 1))
   \<and> payError (fst (pay (walletWorld (Throws ''account not found'')) 1))
       = Some (Thrown ''account not found'')
   \<and> status (fst (pay (walletWorld (Throws ''account not found'')) 1)) = 0"
proof -
  let ?w = "walletWorld (Throws ''account not found'')"
  have f: "\<not> success (fst (pay ?w 1))" by (simp add: pay_defs)
  have e: "payError (fst (pay ?w 1)) = Some (Thrown ''account not found'')" by (simp add: pay_defs)
  from failing_pay_status [OF f] e f show ?thesis by simp
qed

text \<open>
  The claim as stated has the status reflect the 402 already received when a later step
  throws. Here the 402 response was received and the balance check throws: the status
  is 0.
\<close>

theorem thrown_after_402_reports_zero:
  "initialFetch (walletWorld (Returns 10))
     = Returns \<lparr>httpStatus = 402, parsedBody = Returns ''payment required''\<rparr>
   \<and> pay (walletWorld (Returns 10)) 1 =
       (\<lparr>success = False, data = None, payError = Some (Thrown ''Insufficient USDC balance''),
         txSignature = None, status = 0\<rparr>,
        [Fetch None, GetAccount])"
  by (simp add: pay_defs)

text \<open>
  The same for any step of \<open>sendUSDCPayment\<close> that throws.
\<close>

lemma throw_after_402:
  assumes "initialFetch w = Returns initialResponse" and "httpStatus initialResponse = 402"
    and "paymentInfo w = Returns requirements" and "\<not> reqAmount requirements > maxAmount"
    and "fst (sendUSDCPayment w (reqReceiver requirements) (reqAmount requirements)) = Throws e"
  shows "fst (pay w maxAmount) = caught e \<and> status (fst (pay w maxAmount)) = 0"
  using assms by (auto simp: pay_def caught_def split: prod.splits outcome.splits)

end
